theory Spec2Isabelle
  imports Main "HOL-Library.Sublist"
begin

section \<open>Data model\<close>

text \<open>
  The types of package \<open>v1alpha2\<close> (the devfile API) and of the packages \<open>context\<close> and
  \<open>data\<close> are declared outside the files verified here. They are modelled with exactly the
  fields the verified functions read or write.

  Go errors are values; an error is represented by its message, and \<open>error option\<close> is a
  Go \<open>error\<close> result (\<open>None\<close> is \<open>nil\<close>).
\<close>

type_synonym error = string

text \<open>
  An override directive set (\<open>v1.ParentOverrides\<close>, \<open>v1.PluginOverrides\<close>): patches keyed by
  the id of the element they target. The zero value, which \<open>reflect.DeepEqual\<close> is asked
  about, is the empty collection.
\<close>

type_synonym OverrideSet = "(string \<times> string) list"

text \<open>
  \<open>v1.Parent\<close> and \<open>v1.PluginComponent\<close>: an import reference, which names the document by
  its \<open>uri\<close>, by an \<open>id\<close> in a registry or by a Kubernetes resource, and the overrides. The
  resolver follows the \<open>uri\<close> only, but \<open>reflect.DeepEqual\<close> with the zero value compares
  every field.
\<close>

record Parent =
  ParentUri :: string
  ParentId :: string
  ParentKubernetes :: "string option"
  ParentRegistryUrl :: string
  ParentOverrides :: OverrideSet

record PluginComponent =
  PluginUri :: string
  PluginId :: string
  PluginKubernetes :: "string option"
  PluginRegistryUrl :: string
  PluginOverrides :: OverrideSet

record ContainerComponent =
  Image :: string
  MemoryLimit :: string

text \<open>
  \<open>v1.Component\<close>: a name and one pointer per variant; \<open>None\<close> is the \<open>nil\<close> pointer.
\<close>

record Component =
  Component_Name :: string
  Container :: "ContainerComponent option"
  Plugin :: "PluginComponent option"

record Command =
  Command_Id :: string
  CommandLine :: string

record Project =
  Project_Name :: string
  ClonePath :: string

text \<open>\<open>v1.DevWorkspaceTemplateSpecContent\<close>, the mergeable part of a devfile.\<close>

record WorkspaceContent =
  Components :: "Component list"
  Commands :: "Command list"
  Projects :: "Project list"

text \<open>
  The devfile data object behind the interface \<open>data.DevfileData\<close>: the schema version, the
  optional parent (a pointer) and the workspace content.
\<close>

record DevfileV2 =
  SchemaVersion :: string
  Parent :: "Parent option"
  Workspace :: WorkspaceContent

record DevfileCtx =
  absPath :: string
  url :: string
  apiVersion :: string
  rawContent :: string

text \<open>
  \<open>DevfileObj\<close>: the context and the data. \<open>Data\<close> is an interface value holding a pointer,
  so \<open>None\<close> is the \<open>nil\<close> interface, and a write through it is seen by every copy of the
  \<open>DevfileObj\<close>.
\<close>

record DevfileObj =
  Ctx :: DevfileCtx
  Data :: "DevfileV2 option"

definition DevfileCtx_zero :: DevfileCtx where
  "DevfileCtx_zero = \<lparr>absPath = '''', url = '''', apiVersion = '''', rawContent = ''''\<rparr>"

definition DevfileObj_zero :: DevfileObj where
  "DevfileObj_zero = \<lparr>Ctx = DevfileCtx_zero, Data = None\<rparr>"

definition Parent_zero :: Parent where
  "Parent_zero = \<lparr>ParentUri = '''', ParentId = '''', ParentKubernetes = None,
                   ParentRegistryUrl = '''', ParentOverrides = []\<rparr>"

definition PluginComponent_zero :: PluginComponent where
  "PluginComponent_zero = \<lparr>PluginUri = '''', PluginId = '''', PluginKubernetes = None,
                            PluginRegistryUrl = '''', PluginOverrides = []\<rparr>"

definition WorkspaceContent_zero :: WorkspaceContent where
  "WorkspaceContent_zero = \<lparr>Components = [], Commands = [], Projects = []\<rparr>"

subsection \<open>Accessors of the data object\<close>

text \<open>
  Modelled from the spec: the accessors of \<open>data.DevfileData\<close> (package \<open>data\<close>, not among the
  verified files). They read and write the fields of the document; \<open>GetComponents\<close> is
  called with the empty \<open>DevfileOptions\<close>, which filters nothing out.
\<close>

definition GetParent :: "DevfileV2 \<Rightarrow> Parent option" where
  "GetParent x = Parent x"

definition SetParent :: "Parent option \<Rightarrow> DevfileV2 \<Rightarrow> DevfileV2" where
  "SetParent p x = x\<lparr>Parent := p\<rparr>"

definition GetDevfileWorkspace :: "DevfileV2 \<Rightarrow> WorkspaceContent" where
  "GetDevfileWorkspace x = Workspace x"

definition SetDevfileWorkspace :: "WorkspaceContent \<Rightarrow> DevfileV2 \<Rightarrow> DevfileV2" where
  "SetDevfileWorkspace c x = x\<lparr>Workspace := c\<rparr>"

definition GetComponents :: "DevfileV2 \<Rightarrow> error + Component list" where
  "GetComponents x = Inr (Components (Workspace x))"

definition NewDevfileCtx :: "string \<Rightarrow> DevfileCtx" where
  "NewDevfileCtx path = DevfileCtx_zero\<lparr>absPath := path\<rparr>"

definition NewURLDevfileCtx :: "string \<Rightarrow> DevfileCtx" where
  "NewURLDevfileCtx u = DevfileCtx_zero\<lparr>url := u\<rparr>"

definition GetApiVersion :: "DevfileCtx \<Rightarrow> string" where
  "GetApiVersion c = apiVersion c"

definition GetDevfileContent :: "DevfileCtx \<Rightarrow> string" where
  "GetDevfileContent c = rawContent c"

subsection \<open>External collaborators\<close>

text \<open>
  The functions the parser calls in other packages are parameters of the model. The
  \<open>Populate\<close> family and \<open>Unmarshal\<close> write through a pointer and return an error: they map
  the old value to the new one paired with the error. \<open>NewDevfileData\<close> returns a data
  object or an error, and no object with an error. \<open>OverrideDevWorkspaceTemplateSpec\<close> and
  \<open>MergeDevWorkspaceTemplateSpec\<close> belong to the devfile API library; they return a new
  content or an error and are taken not to write to the contents they are given.
\<close>

record env =
  Populate :: "DevfileCtx \<Rightarrow> DevfileCtx \<times> error option"
  PopulateFromURL :: "DevfileCtx \<Rightarrow> DevfileCtx \<times> error option"
  PopulateFromRaw :: "DevfileCtx \<Rightarrow> DevfileCtx \<times> error option"
  SetDevfileContentFromBytes :: "string \<Rightarrow> DevfileCtx \<Rightarrow> DevfileCtx \<times> error option"
  Validate :: "DevfileCtx \<Rightarrow> error option"
  NewDevfileData :: "string \<Rightarrow> error + DevfileV2"
  Unmarshal :: "string \<Rightarrow> DevfileV2 \<Rightarrow> DevfileV2 \<times> error option"
  OverrideDevWorkspaceTemplateSpec :: "WorkspaceContent \<Rightarrow> OverrideSet \<Rightarrow> error + WorkspaceContent"
  MergeDevWorkspaceTemplateSpec ::
    "WorkspaceContent \<Rightarrow> WorkspaceContent \<Rightarrow> WorkspaceContent list \<Rightarrow> error + WorkspaceContent"

text \<open>\<open>errors.Wrap\<close> and \<open>errors.Wrapf\<close> prefix the message of the cause.\<close>

definition Wrapf :: "error \<Rightarrow> string \<Rightarrow> error" where
  "Wrapf e msg = msg @ '': '' @ e"

subsection \<open>Outcomes of a call\<close>

text \<open>
  A call either panics (a method call on a \<open>nil\<close> interface) or returns. Each call also
  yields the list of URLs it asked \<open>PopulateFromURL\<close> to download, in order. The recursive
  functions take a bound on the depth of nested \<open>ParseFromURL\<close> calls; \<open>None\<close> means that the
  bound was reached before the call returned.
\<close>

datatype 'a outcome = Panic | Returns 'a

type_synonym 'a run = "('a outcome \<times> string list) option"

section \<open>The parser\<close>

text \<open>
  \<open>parseParentAndPlugin\<close> returns an error and writes to the data object behind \<open>d.Data\<close>;
  the model returns the data object as it is when the call returns, with the error.
  \<open>flattenParent\<close> is the block that resolves the parent reference and yields
  \<open>flattenedParent\<close>; \<open>flattenPlugins\<close> is the loop over the components, with the list
  \<open>plugins\<close> built so far. Both yield \<open>Inl\<close> where the source returns an error.

  The functions call each other as in the source. Only \<open>ParseFromURL\<close> uses up the bound,
  one unit for each nested call; the other functions pass it on, and the loop goes down
  the list of components.
\<close>

function ParseFromURL :: "env \<Rightarrow> nat \<Rightarrow> string \<Rightarrow> (DevfileObj \<times> error option) run"
and parseDevfile :: "env \<Rightarrow> nat \<Rightarrow> DevfileObj \<Rightarrow> bool \<Rightarrow> (DevfileObj \<times> error option) run"
and parseParentAndPlugin :: "env \<Rightarrow> nat \<Rightarrow> DevfileObj \<Rightarrow> (DevfileV2 option \<times> error option) run"
and flattenParent :: "env \<Rightarrow> nat \<Rightarrow> Parent option \<Rightarrow> (error + WorkspaceContent) run"
and flattenPlugins ::
  "env \<Rightarrow> nat \<Rightarrow> Component list \<Rightarrow> WorkspaceContent list \<Rightarrow> (error + WorkspaceContent list) run"
where
  "ParseFromURL E 0 u = None"
| "ParseFromURL E (Suc n) u =
    (case PopulateFromURL E (NewURLDevfileCtx u) of
       (c, Some e) \<Rightarrow> Some (Returns (\<lparr>Ctx = c, Data = None\<rparr>, Some e), [u])
     | (c, None) \<Rightarrow>
        (case parseDevfile E n \<lparr>Ctx = c, Data = None\<rparr> True of
           None \<Rightarrow> None
         | Some (r, tr) \<Rightarrow> Some (r, u # tr)))"
| "parseDevfile E n d flattenedDevfile =
    (case Validate E (Ctx d) of
       Some e \<Rightarrow> Some (Returns (d, Some e), [])
     | None \<Rightarrow>
        (case NewDevfileData E (GetApiVersion (Ctx d)) of
           Inl e \<Rightarrow> Some (Returns (d\<lparr>Data := None\<rparr>, Some e), [])
         | Inr x0 \<Rightarrow>
            (case Unmarshal E (GetDevfileContent (Ctx d)) x0 of
               (x, Some e) \<Rightarrow>
                 Some (Returns (d\<lparr>Data := Some x\<rparr>, Some (Wrapf e ''failed to decode devfile content'')), [])
             | (x, None) \<Rightarrow>
                 if flattenedDevfile then
                   (case parseParentAndPlugin E n (d\<lparr>Data := Some x\<rparr>) of
                      None \<Rightarrow> None
                    | Some (Panic, tr) \<Rightarrow> Some (Panic, tr)
                    | Some (Returns (dat, Some e), tr) \<Rightarrow> Some (Returns (DevfileObj_zero, Some e), tr)
                    | Some (Returns (dat, None), tr) \<Rightarrow> Some (Returns (d\<lparr>Data := dat\<rparr>, None), tr))
                 else Some (Returns (d\<lparr>Data := Some x\<rparr>, None), []))))"
| "parseParentAndPlugin E n d =
    (case Data d of
       None \<Rightarrow> Some (Panic, [])
     | Some x \<Rightarrow>
        (case flattenParent E n (GetParent x) of
           None \<Rightarrow> None
         | Some (Panic, tr1) \<Rightarrow> Some (Panic, tr1)
         | Some (Returns (Inl e), tr1) \<Rightarrow> Some (Returns (Some x, Some e), tr1)
         | Some (Returns (Inr flattenedParent), tr1) \<Rightarrow>
            (case GetComponents x of
               Inl e \<Rightarrow> Some (Returns (Some x, Some e), tr1)
             | Inr components \<Rightarrow>
                (case flattenPlugins E n components [] of
                   None \<Rightarrow> None
                 | Some (Panic, tr2) \<Rightarrow> Some (Panic, tr1 @ tr2)
                 | Some (Returns (Inl e), tr2) \<Rightarrow> Some (Returns (Some x, Some e), tr1 @ tr2)
                 | Some (Returns (Inr plugins), tr2) \<Rightarrow>
                    (case MergeDevWorkspaceTemplateSpec E (GetDevfileWorkspace x) flattenedParent plugins of
                       Inl e \<Rightarrow> Some (Returns (Some x, Some e), tr1 @ tr2)
                     | Inr mergedContent \<Rightarrow>
                        Some (Returns (Some (SetParent None (SetDevfileWorkspace mergedContent x)), None),
                              tr1 @ tr2))))))"
| "flattenParent E n None = Some (Returns (Inr WorkspaceContent_zero), [])"
| "flattenParent E n (Some parent) =
    (if parent \<noteq> Parent_zero \<and> ParentUri parent \<noteq> '''' then
       (case ParseFromURL E n (ParentUri parent) of
          None \<Rightarrow> None
        | Some (Panic, tr) \<Rightarrow> Some (Panic, tr)
        | Some (Returns (parentData, Some e), tr) \<Rightarrow> Some (Returns (Inl e), tr)
        | Some (Returns (parentData, None), tr) \<Rightarrow>
           (case Data parentData of
              None \<Rightarrow> Some (Panic, tr)
            | Some px \<Rightarrow>
               if ParentOverrides parent \<noteq> [] then
                 (case OverrideDevWorkspaceTemplateSpec E (GetDevfileWorkspace px) (ParentOverrides parent) of
                    Inl e \<Rightarrow> Some (Returns (Inl e), tr)
                  | Inr c \<Rightarrow> Some (Returns (Inr c), tr))
               else Some (Returns (Inr (GetDevfileWorkspace px)), tr)))
     else Some (Returns (Inr WorkspaceContent_zero), []))"
| "flattenPlugins E n [] plugins = Some (Returns (Inr plugins), [])"
| "flattenPlugins E n (component # rest) plugins =
    (case Plugin component of
       None \<Rightarrow> flattenPlugins E n rest plugins
     | Some plugin \<Rightarrow>
        if plugin \<noteq> PluginComponent_zero then
          (case (if PluginUri plugin \<noteq> ''''
                 then ParseFromURL E n (PluginUri plugin)
                 else Some (Returns (DevfileObj_zero, None), [])) of
             None \<Rightarrow> None
           | Some (Panic, tr) \<Rightarrow> Some (Panic, tr)
           | Some (Returns (pluginData, Some e), tr) \<Rightarrow> Some (Returns (Inl e), tr)
           | Some (Returns (pluginData, None), tr) \<Rightarrow>
              (case Data pluginData of
                 None \<Rightarrow> Some (Panic, tr)
               | Some px \<Rightarrow>
                  (case (if PluginOverrides plugin \<noteq> []
                         then OverrideDevWorkspaceTemplateSpec E (GetDevfileWorkspace px) (PluginOverrides plugin)
                         else Inr (GetDevfileWorkspace px)) of
                     Inl e \<Rightarrow> Some (Returns (Inl e), tr)
                   | Inr result \<Rightarrow>
                      (case flattenPlugins E n rest (plugins @ [result]) of
                         None \<Rightarrow> None
                       | Some (r, tr') \<Rightarrow> Some (r, tr @ tr')))))
        else flattenPlugins E n rest plugins)"
  by pat_completeness simp_all

termination
  by (relation "measures [
     (\<lambda>x. case x of Inl (Inl (E, n, u)) \<Rightarrow> n | Inl (Inr (E, n, d, f)) \<Rightarrow> n
        | Inr (Inl (E, n, d)) \<Rightarrow> n | Inr (Inr (Inl (E, n, p))) \<Rightarrow> n
        | Inr (Inr (Inr (E, n, cs, acc))) \<Rightarrow> n),
     (\<lambda>x. case x of Inl (Inl _) \<Rightarrow> 0 | Inl (Inr _) \<Rightarrow> 3 | Inr (Inl _) \<Rightarrow> 2
        | Inr (Inr (Inl _)) \<Rightarrow> 1 | Inr (Inr (Inr _)) \<Rightarrow> 1),
     (\<lambda>x. case x of Inr (Inr (Inr (E, n, cs, acc))) \<Rightarrow> length cs | _ \<Rightarrow> 0)]")
    simp_all

declare parseDevfile.simps [simp del]
declare parseParentAndPlugin.simps [simp del]
declare flattenParent.simps [simp del]
declare flattenPlugins.simps [simp del]
declare ParseFromURL.simps [simp del]

text \<open>The entry points differ in how the context is filled and in the flag they pass.\<close>

definition Parse :: "env \<Rightarrow> nat \<Rightarrow> string \<Rightarrow> (DevfileObj \<times> error option) run" where
  "Parse E n path =
    (case Populate E (NewDevfileCtx path) of
       (c, Some e) \<Rightarrow> Some (Returns (\<lparr>Ctx = c, Data = None\<rparr>, Some e), [])
     | (c, None) \<Rightarrow> parseDevfile E n \<lparr>Ctx = c, Data = None\<rparr> True)"

definition ParseRawDevfile :: "env \<Rightarrow> nat \<Rightarrow> string \<Rightarrow> (DevfileObj \<times> error option) run" where
  "ParseRawDevfile E n path =
    (case Populate E (NewDevfileCtx path) of
       (c, Some e) \<Rightarrow> Some (Returns (\<lparr>Ctx = c, Data = None\<rparr>, Some e), [])
     | (c, None) \<Rightarrow> parseDevfile E n \<lparr>Ctx = c, Data = None\<rparr> False)"

definition ParseFromData :: "env \<Rightarrow> nat \<Rightarrow> string \<Rightarrow> (DevfileObj \<times> error option) run" where
  "ParseFromData E n bytes =
    (case SetDevfileContentFromBytes E bytes DevfileCtx_zero of
       (c, Some e) \<Rightarrow>
         Some (Returns (\<lparr>Ctx = c, Data = None\<rparr>, Some (Wrapf e ''failed to set devfile content from bytes'')), [])
     | (c, None) \<Rightarrow>
        (case PopulateFromRaw E c of
           (c', Some e) \<Rightarrow> Some (Returns (\<lparr>Ctx = c', Data = None\<rparr>, Some e), [])
         | (c', None) \<Rightarrow> parseDevfile E n \<lparr>Ctx = c', Data = None\<rparr> True))"

section \<open>The sync folder of the generator\<close>

text \<open>
  The functions of Go's standard library that \<open>addSyncFolder\<close> calls, for a Unix target:
  \<open>strings.HasPrefix\<close>, \<open>strings.Contains\<close>, \<open>filepath.Clean\<close>, \<open>filepath.Join\<close> and
  \<open>filepath.ToSlash\<close> (the identity where the separator is the slash).
\<close>

definition HasPrefix :: "string \<Rightarrow> string \<Rightarrow> bool" where
  "HasPrefix s p = prefix p s"

fun Contains :: "string \<Rightarrow> string \<Rightarrow> bool" where
  "Contains [] sub = (sub = [])"
| "Contains (c # s) sub = (prefix sub (c # s) \<or> Contains s sub)"

text \<open>The elements of a path: the pieces between slashes.\<close>

fun elements :: "string \<Rightarrow> string \<Rightarrow> string list" where
  "elements cur [] = [cur]"
| "elements cur (c # s) = (if c = CHR ''/'' then cur # elements [] s else elements (cur @ [c]) s)"

fun joinWith :: "string \<Rightarrow> string list \<Rightarrow> string" where
  "joinWith sep [] = []"
| "joinWith sep [x] = x"
| "joinWith sep (x # y # ys) = x @ sep @ joinWith sep (y # ys)"

text \<open>
  \<open>Clean\<close> keeps a stack of the elements seen: empty elements and \<open>.\<close> are dropped, \<open>..\<close>
  removes the element before it unless that is itself \<open>..\<close>, is dropped at the root of a
  rooted path, and is kept otherwise. The empty result is \<open>.\<close>.
\<close>

definition cleanStep :: "bool \<Rightarrow> string list \<Rightarrow> string \<Rightarrow> string list" where
  "cleanStep rooted stack e =
    (if e = [] \<or> e = ''.'' then stack
     else if e = ''..'' then
       (if stack \<noteq> [] \<and> last stack \<noteq> ''..'' then butlast stack
        else if rooted then stack
        else stack @ [e])
     else stack @ [e])"

definition Clean :: "string \<Rightarrow> string" where
  "Clean p =
    (let rooted = HasPrefix p ''/'';
         out = (if rooted then ''/'' else []) @ joinWith ''/'' (foldl (cleanStep rooted) [] (elements [] p))
     in if out = [] then ''.'' else out)"

definition Join :: "string list \<Rightarrow> string" where
  "Join elem = (case dropWhile (\<lambda>e. e = []) elem of [] \<Rightarrow> [] | es \<Rightarrow> Clean (joinWith ''/'' es))"

definition ToSlash :: "string \<Rightarrow> string" where
  "ToSlash p = p"

record EnvVar =
  EnvVar_Name :: string
  EnvVar_Value :: string

text \<open>\<open>corev1.Container\<close>, with the fields the generator sets.\<close>

record corev1_Container =
  Container_Name :: string
  Container_Image :: string
  Env :: "EnvVar list"

text \<open>
  The constant is declared elsewhere in the package; the comment in \<open>addSyncRootFolder\<close>
  names the variable.
\<close>

definition EnvProjectsSrc :: string where
  "EnvProjectsSrc = ''PROJECT_SOURCE''"

text \<open>The two messages that \<open>fmt.Errorf\<close> formats in \<open>addSyncFolder\<close>.\<close>

definition relativePathError :: "Project \<Rightarrow> error" where
  "relativePathError project =
     ''the clonePath '' @ ClonePath project @ '' in the devfile project '' @ Project_Name project @
     '' must be a relative path''"

definition escapePathError :: "Project \<Rightarrow> error" where
  \<open>escapePathError project =
     ''the clonePath '' @ ClonePath project @ '' in the devfile project '' @ Project_Name project @
     '' cannot escape the value defined by $PROJECTS_ROOT. Please avoid using ".." in clonePath''\<close>

text \<open>
  \<open>addSyncFolder\<close> appends to \<open>container.Env\<close> through the pointer and returns an error: the
  model returns the container after the call with the error.
\<close>

definition addSyncFolder ::
  "corev1_Container \<Rightarrow> string \<Rightarrow> Project list \<Rightarrow> corev1_Container \<times> error option" where
  "addSyncFolder container sourceVolumePath projects =
    (let setEnv = (\<lambda>syncFolder.
           (container\<lparr>Env := Env container @ [\<lparr>EnvVar_Name = EnvProjectsSrc, EnvVar_Value = syncFolder\<rparr>]\<rparr>,
            None))
     in case projects of
          [] \<Rightarrow> setEnv sourceVolumePath
        | project # _ \<Rightarrow>
           (let syncFolder = ToSlash (Join [sourceVolumePath, Project_Name project]) in
            if ClonePath project \<noteq> '''' then
              if HasPrefix (ClonePath project) ''/'' then (container, Some (relativePathError project))
              else if Contains (ClonePath project) ''..'' then (container, Some (escapePathError project))
              else setEnv (ToSlash (Join [sourceVolumePath, ClonePath project]))
            else setEnv syncFolder))"

section \<open>What the resolver is expected to compute\<close>

text \<open>
  The layers that the specification describes, written independently of the control flow
  of \<open>parseParentAndPlugin\<close>. \<open>importedPlugins\<close> selects the Plugin components that are
  not the zero value, in declaration order. \<open>pluginLayer\<close> is the content one plugin
  contributes: the referenced document, downloaded and flattened by \<open>ParseFromURL\<close>, with
  the plugin's overrides applied when there are any; it is \<open>None\<close> when that fails.
  \<open>parentLayer\<close> is the same for the parent reference, and the empty content when there
  is no parent to resolve. \<open>pluginFetches\<close> lists the downloads made for one plugin.
\<close>

fun importedPlugins :: "Component list \<Rightarrow> PluginComponent list" where
  "importedPlugins [] = []"
| "importedPlugins (c # cs) =
    (case Plugin c of
       None \<Rightarrow> importedPlugins cs
     | Some p \<Rightarrow> if p \<noteq> PluginComponent_zero then p # importedPlugins cs else importedPlugins cs)"




subsection \<open>The reference graph\<close>

text \<open>
  \<open>decodeAt\<close> is the document a URL holds: what \<open>ParseFromURL\<close> and \<open>parseDevfile\<close> have
  decoded when they reach the flattening step, and \<open>None\<close> when they return before it.
  \<open>references\<close> are the URLs the flattening step of a document downloads: the parent's,
  when it is resolved, and those of the imported plugins. \<open>resolves_within E k u\<close> says
  that every chain of references that starts at \<open>u\<close> ends in fewer than \<open>k\<close> steps, so the
  graph below \<open>u\<close> is acyclic and of depth below \<open>k\<close>. \<open>parent_cycle E us\<close> says that every
  URL of the non-empty list \<open>us\<close> holds a document whose parent reference is again in
  \<open>us\<close>: following parents from any of them never leaves the list.
\<close>

definition decodeAt :: "env \<Rightarrow> string \<Rightarrow> DevfileV2 option" where
  "decodeAt E u =
    (case PopulateFromURL E (NewURLDevfileCtx u) of
       (c, Some e) \<Rightarrow> None
     | (c, None) \<Rightarrow>
        (case Validate E c of
           Some e \<Rightarrow> None
         | None \<Rightarrow>
            (case NewDevfileData E (GetApiVersion c) of
               Inl e \<Rightarrow> None
             | Inr x0 \<Rightarrow>
                (case Unmarshal E (GetDevfileContent c) x0 of
                   (x, Some e) \<Rightarrow> None
                 | (x, None) \<Rightarrow> Some x))))"

definition parentReference :: "DevfileV2 \<Rightarrow> string option" where
  "parentReference x =
    (case GetParent x of
       None \<Rightarrow> None
     | Some p \<Rightarrow> if p \<noteq> Parent_zero \<and> ParentUri p \<noteq> '''' then Some (ParentUri p) else None)"

definition references :: "DevfileV2 \<Rightarrow> string list" where
  "references x =
    (case parentReference x of None \<Rightarrow> [] | Some u \<Rightarrow> [u]) @
    filter (\<lambda>u. u \<noteq> '''') (map PluginUri (importedPlugins (Components (GetDevfileWorkspace x))))"

primrec resolves_within :: "env \<Rightarrow> nat \<Rightarrow> string \<Rightarrow> bool" where
  "resolves_within E 0 u = False"
| "resolves_within E (Suc k) u =
    (case decodeAt E u of
       None \<Rightarrow> True
     | Some x \<Rightarrow> list_all (resolves_within E k) (references x))"

definition parentOf :: "env \<Rightarrow> string \<Rightarrow> string option" where
  "parentOf E u = (case decodeAt E u of None \<Rightarrow> None | Some x \<Rightarrow> parentReference x)"

definition parent_cycle :: "env \<Rightarrow> string list \<Rightarrow> bool" where
  "parent_cycle E us =
    (us \<noteq> [] \<and> list_all (\<lambda>u. case parentOf E u of None \<Rightarrow> False | Some v \<Rightarrow> v \<in> set us) us)"

subsection \<open>The flattened content of a document\<close>






section \<open>A small network of devfiles\<close>

text \<open>
  An environment to instantiate the theorems with. Raw content is identified with the
  path or URL it was read from. \<open>P\<close> and \<open>Q\<close> hold flat documents with one container
  each; \<open>L\<close> has the parent \<open>P\<close>, a plugin component for \<open>Q\<close> and a container of its own;
  \<open>M\<close> has the parent \<open>X\<close>, which cannot be downloaded; \<open>S\<close> names itself as its parent.
  \<open>parentAt u\<close> and \<open>pluginAt u\<close> are references by \<open>uri\<close> without overrides, and
  \<open>pluginById i\<close> is a plugin that is referenced by its \<open>id\<close> and has no \<open>uri\<close>.
\<close>

definition parentAt :: "string \<Rightarrow> Parent" where
  "parentAt u = Parent_zero\<lparr>ParentUri := u\<rparr>"

definition pluginAt :: "string \<Rightarrow> PluginComponent" where
  "pluginAt u = PluginComponent_zero\<lparr>PluginUri := u\<rparr>"

definition pluginById :: "string \<Rightarrow> PluginComponent" where
  "pluginById i = PluginComponent_zero\<lparr>PluginId := i\<rparr>"

definition container :: "string \<Rightarrow> Component" where
  "container name = \<lparr>Component_Name = name, Container = Some \<lparr>Image = ''img'', MemoryLimit = ''''\<rparr>, Plugin = None\<rparr>"

definition flatDoc :: "Component list \<Rightarrow> DevfileV2" where
  "flatDoc cs = \<lparr>SchemaVersion = ''2.0.0'', Parent = None,
                 Workspace = \<lparr>Components = cs, Commands = [], Projects = []\<rparr>\<rparr>"

definition example_doc :: "string \<Rightarrow> DevfileV2 option" where
  "example_doc raw =
    (if raw = ''P'' then Some (flatDoc [container ''a''])
     else if raw = ''Q'' then Some (flatDoc [container ''b''])
     else if raw = ''L'' then
       Some ((flatDoc [\<lparr>Component_Name = ''q'', Container = None,
                         Plugin = Some (pluginAt ''Q'')\<rparr>,
                       container ''c''])
             \<lparr>Parent := Some (parentAt ''P'')\<rparr>)
     else if raw = ''M'' then
       Some ((flatDoc [container ''c''])\<lparr>Parent := Some (parentAt ''X'')\<rparr>)
     else if raw = ''S'' then
       Some ((flatDoc [container ''c''])\<lparr>Parent := Some (parentAt ''S'')\<rparr>)
     else None)"

text \<open>
  Modelled from the spec: the merger \<open>MergeDevWorkspaceTemplateSpec\<close> of the devfile API,
  which is not among the verified files. The specification has a parent that yields \<open>a\<close>,
  a plugin that yields \<open>b\<close> and a local document that declares \<open>c\<close> flatten to \<open>a\<close>, \<open>b\<close>, \<open>c\<close>,
  with no Plugin component left: the merger puts together the lists of the parent, of the
  plugins in order and of the document itself, and leaves the Plugin components out. An
  element that occurs twice with the same content is kept once; two components, commands
  or projects with one name and different content are a merge error.
\<close>

definition example_merge ::
  "WorkspaceContent \<Rightarrow> WorkspaceContent \<Rightarrow> WorkspaceContent list \<Rightarrow> error + WorkspaceContent" where
  "example_merge m p ps =
    (let components = remdups (filter (\<lambda>c. Plugin c = None)
                                 (Components p @ concat (map Components ps) @ Components m));
         commands = remdups (Commands p @ concat (map Commands ps) @ Commands m);
         projects = remdups (Projects p @ concat (map Projects ps) @ Projects m)
     in if distinct (map Component_Name components) \<and> distinct (map Command_Id commands) \<and>
           distinct (map Project_Name projects)
        then Inr \<lparr>Components = components, Commands = commands, Projects = projects\<rparr>
        else Inl ''merge conflict'')"

text \<open>
  The other collaborators of the example: every context validates with schema version
  \<open>2.0.0\<close>, only \<open>X\<close> fails to download, decoding looks the content up in \<open>example_doc\<close>, and
  the override function returns the content as it is.
\<close>

definition example_env :: env where
  "example_env =
    \<lparr>Populate = (\<lambda>c. (c\<lparr>apiVersion := ''2.0.0'', rawContent := absPath c\<rparr>, None)),
     PopulateFromURL = (\<lambda>c. if url c = ''X'' then (c, Some ''not found'')
                             else (c\<lparr>apiVersion := ''2.0.0'', rawContent := url c\<rparr>, None)),
     PopulateFromRaw = (\<lambda>c. (c\<lparr>apiVersion := ''2.0.0''\<rparr>, None)),
     SetDevfileContentFromBytes = (\<lambda>b c. (c\<lparr>rawContent := b\<rparr>, None)),
     Validate = (\<lambda>c. None),
     NewDevfileData = (\<lambda>v. Inr \<lparr>SchemaVersion = v, Parent = None, Workspace = WorkspaceContent_zero\<rparr>),
     Unmarshal = (\<lambda>raw x0. case example_doc raw of None \<Rightarrow> (x0, Some ''invalid'') | Some x \<Rightarrow> (x, None)),
     OverrideDevWorkspaceTemplateSpec = (\<lambda>c ov. Inr c),
     MergeDevWorkspaceTemplateSpec = example_merge\<rparr>"

section \<open>Properties of the parser\<close>

lemmas example_defs =
  example_env_def example_doc_def example_merge_def flatDoc_def container_def parentAt_def pluginAt_def
  pluginById_def
  NewURLDevfileCtx_def NewDevfileCtx_def DevfileCtx_zero_def DevfileObj_zero_def
  GetApiVersion_def GetDevfileContent_def GetParent_def SetParent_def GetComponents_def
  GetDevfileWorkspace_def SetDevfileWorkspace_def Parent_zero_def PluginComponent_zero_def
  WorkspaceContent_zero_def

lemmas parser_simps =
  ParseFromURL.simps parseDevfile.simps parseParentAndPlugin.simps flattenParent.simps
  flattenPlugins.simps





subsection \<open>Termination\<close>

lemma flattenParent_returns:
  assumes "\<And>u. parentReference x = Some u \<Longrightarrow> ParseFromURL E n u \<noteq> None"
  shows "flattenParent E n (GetParent x) \<noteq> None"
proof (cases "GetParent x")
  case None
  then show ?thesis by (simp add: flattenParent.simps)
next
  case (Some p)
  show ?thesis
  proof (cases "p \<noteq> Parent_zero \<and> ParentUri p \<noteq> ''''")
    case True
    with Some have "parentReference x = Some (ParentUri p)"
      by (simp add: parentReference_def)
    from assms [OF this] obtain r tr where "ParseFromURL E n (ParentUri p) = Some (r, tr)"
      by auto
    with Some True show ?thesis
      by (auto simp: flattenParent.simps split: option.splits prod.splits outcome.splits sum.splits)
  next
    case False
    with Some show ?thesis by (auto simp: flattenParent.simps)
  qed
qed

lemma flattenPlugins_returns:
  assumes "\<And>p. p \<in> set (importedPlugins cs) \<Longrightarrow> PluginUri p \<noteq> '''' \<Longrightarrow>
             ParseFromURL E n (PluginUri p) \<noteq> None"
  shows "flattenPlugins E n cs acc \<noteq> None"
  using assms
proof (induction cs arbitrary: acc)
  case Nil
  then show ?case by (simp add: flattenPlugins.simps)
next
  case (Cons c cs)
  have rest: "flattenPlugins E n cs acc' \<noteq> None" for acc'
    using Cons.IH Cons.prems by (auto split: option.splits if_splits)
  show ?case
  proof (cases "Plugin c")
    case None
    with rest show ?thesis by (simp add: flattenPlugins.simps)
  next
    case (Some p)
    show ?thesis
    proof (cases "p = PluginComponent_zero")
      case True
      with Some rest show ?thesis by (simp add: flattenPlugins.simps)
    next
      case False
      show ?thesis
      proof (cases "PluginUri p = ''''")
        case True
        with Some False show ?thesis
          by (simp add: flattenPlugins.simps DevfileObj_zero_def)
      next
        case uri: False
        from Some False have "p \<in> set (importedPlugins (c # cs))" by simp
        from Cons.prems [OF this uri] obtain r tr where
          "ParseFromURL E n (PluginUri p) = Some (r, tr)" by auto
        with Some False uri show ?thesis
          by (auto simp: flattenPlugins.simps rest
                   split: option.splits prod.splits outcome.splits sum.splits)
      qed
    qed
  qed
qed

lemma parseParentAndPlugin_returns:
  assumes "Data d = Some x"
    and "\<And>u. u \<in> set (references x) \<Longrightarrow> ParseFromURL E n u \<noteq> None"
  shows "parseParentAndPlugin E n d \<noteq> None"
proof -
  have par: "flattenParent E n (GetParent x) \<noteq> None"
    by (rule flattenParent_returns) (simp add: assms(2) references_def)
  have plu: "flattenPlugins E n (Components (GetDevfileWorkspace x)) [] \<noteq> None"
    by (rule flattenPlugins_returns) (simp add: assms(2) references_def)
  from par plu assms(1) show ?thesis
    by (auto simp: parseParentAndPlugin.simps GetComponents_def GetDevfileWorkspace_def
             split: option.splits prod.splits outcome.splits sum.splits)
qed

lemma parseParentAndPlugin_nil:
  "Data d = None \<Longrightarrow> parseParentAndPlugin E n d = Some (Panic, [])"
  by (simp add: parseParentAndPlugin.simps)

lemma ParseFromURL_returns:
  "resolves_within E k u \<Longrightarrow> ParseFromURL E k u \<noteq> None"
proof (induction k arbitrary: u)
  case 0
  then show ?case by simp
next
  case (Suc k)
  obtain c eo where pop: "PopulateFromURL E (NewURLDevfileCtx u) = (c, eo)"
    by (cases "PopulateFromURL E (NewURLDevfileCtx u)")
  show ?case
  proof (cases "decodeAt E u")
    case None
    with pop show ?thesis
      by (auto simp: ParseFromURL.simps parseDevfile.simps decodeAt_def
               split: option.splits prod.splits outcome.splits sum.splits)
  next
    case (Some x)
    with Suc.prems have "\<And>v. v \<in> set (references x) \<Longrightarrow> resolves_within E k v"
      by (simp add: list_all_iff)
    then have "\<And>v. v \<in> set (references x) \<Longrightarrow> ParseFromURL E k v \<noteq> None"
      using Suc.IH by blast
    then have "parseParentAndPlugin E k \<lparr>Ctx = c, Data = Some x\<rparr> \<noteq> None"
      by (intro parseParentAndPlugin_returns [where x = x]) simp_all
    with Some pop show ?thesis
      by (auto simp: ParseFromURL.simps parseDevfile.simps decodeAt_def
               split: option.splits prod.splits outcome.splits sum.splits)
  qed
qed

subsection \<open>Cycles\<close>

lemma ParseFromURL_parent_diverges:
  assumes "parentOf E u = Some v" and "ParseFromURL E n v = None"
  shows "ParseFromURL E (Suc n) u = None"
proof -
  from assms(1) obtain x where x: "decodeAt E u = Some x" and ref: "parentReference x = Some v"
    by (auto simp: parentOf_def split: option.splits)
  from ref obtain p where p: "GetParent x = Some p" "p \<noteq> Parent_zero" "ParentUri p \<noteq> ''''" "ParentUri p = v"
    by (auto simp: parentReference_def split: option.splits if_splits)
  with assms(2) have "flattenParent E n (GetParent x) = None"
    by (simp add: flattenParent.simps)
  then have "parseParentAndPlugin E n \<lparr>Ctx = c, Data = Some x\<rparr> = None" for c
    by (simp add: parseParentAndPlugin.simps)
  with x show ?thesis
    by (auto simp: ParseFromURL.simps parseDevfile.simps decodeAt_def
             split: option.splits prod.splits outcome.splits sum.splits)
qed

lemma parent_cycle_diverges:
  assumes "parent_cycle E us"
  shows "\<forall>u\<in>set us. ParseFromURL E n u = None"
proof (induction n)
  case 0
  then show ?case by (simp add: ParseFromURL.simps)
next
  case (Suc n)
  show ?case
  proof
    fix u assume "u \<in> set us"
    with assms obtain v where "parentOf E u = Some v" "v \<in> set us"
      by (auto simp: parent_cycle_def list_all_iff split: option.splits)
    with Suc show "ParseFromURL E (Suc n) u = None"
      by (auto intro: ParseFromURL_parent_diverges)
  qed
qed

subsection \<open>A larger bound gives the same result\<close>

lemma flattenParent_mono:
  assumes A: "\<And>u r. ParseFromURL E n u = Some r \<Longrightarrow> ParseFromURL E m u = Some r"
    and "flattenParent E n po = Some r"
  shows "flattenParent E m po = Some r"
proof (cases po)
  case None
  with assms(2) show ?thesis by (simp add: flattenParent.simps)
next
  case (Some p)
  show ?thesis
  proof (cases "p \<noteq> Parent_zero \<and> ParentUri p \<noteq> ''''")
    case True
    with assms(2) Some obtain rr where n: "ParseFromURL E n (ParentUri p) = Some rr"
      by (auto simp: flattenParent.simps split: option.splits)
    from A [OF n] n assms(2) Some True show ?thesis
      by (simp add: flattenParent.simps)
  next
    case False
    with assms(2) Some show ?thesis by (auto simp: flattenParent.simps)
  qed
qed

lemma flattenPlugins_mono:
  assumes A: "\<And>u r. ParseFromURL E n u = Some r \<Longrightarrow> ParseFromURL E m u = Some r"
  shows "flattenPlugins E n cs acc = Some r \<Longrightarrow> flattenPlugins E m cs acc = Some r"
proof (induction cs arbitrary: acc r)
  case Nil
  then show ?case by (simp add: flattenPlugins.simps)
next
  case (Cons c cs)
  show ?case
  proof (cases "Plugin c")
    case None
    with Cons show ?thesis by (simp add: flattenPlugins.simps)
  next
    case (Some p)
    show ?thesis
    proof (cases "p = PluginComponent_zero")
      case True
      with Some Cons show ?thesis by (simp add: flattenPlugins.simps)
    next
      case False
      show ?thesis
      proof (cases "PluginUri p = ''''")
        case True
        with Some False Cons.prems show ?thesis
          by (simp add: flattenPlugins.simps DevfileObj_zero_def)
      next
        case uri: False
        with Cons.prems Some False obtain rr where n: "ParseFromURL E n (PluginUri p) = Some rr"
          by (auto simp: flattenPlugins.simps split: option.splits)
        note m = A [OF n]
        from Cons.prems Some False uri n m show ?thesis
          by (auto simp: flattenPlugins.simps dest: Cons.IH
                   split: option.splits prod.splits outcome.splits sum.splits if_splits)
      qed
    qed
  qed
qed

lemma parseParentAndPlugin_mono:
  assumes A: "\<And>u r. ParseFromURL E n u = Some r \<Longrightarrow> ParseFromURL E m u = Some r"
    and "parseParentAndPlugin E n d = Some r"
  shows "parseParentAndPlugin E m d = Some r"
proof (cases "Data d")
  case None
  with assms(2) show ?thesis by (simp add: parseParentAndPlugin.simps)
next
  case (Some x)
  from assms(2) Some obtain rp where pn: "flattenParent E n (GetParent x) = Some rp"
    by (auto simp: parseParentAndPlugin.simps split: option.splits)
  note pm = flattenParent_mono [OF A pn]
  show ?thesis
  proof (cases "flattenPlugins E n (Components (Workspace x)) []")
    case None
    with assms(2) Some pn pm show ?thesis
      by (auto simp: parseParentAndPlugin.simps GetComponents_def
               split: option.splits prod.splits outcome.splits sum.splits)
  next
    case rq: (Some rq)
    note qm = flattenPlugins_mono [OF A rq]
    from assms(2) Some pn pm rq qm show ?thesis
      by (auto simp: parseParentAndPlugin.simps GetComponents_def
               split: prod.splits outcome.splits sum.splits)
  qed
qed

lemma parseDevfile_mono:
  assumes A: "\<And>u r. ParseFromURL E n u = Some r \<Longrightarrow> ParseFromURL E m u = Some r"
    and "parseDevfile E n d f = Some r"
  shows "parseDevfile E m d f = Some r"
proof (cases "Validate E (Ctx d)")
  case (Some e)
  with assms(2) show ?thesis by (simp add: parseDevfile.simps)
next
  case None
  show ?thesis
  proof (cases "NewDevfileData E (GetApiVersion (Ctx d))")
    case (Inl e)
    with assms(2) None show ?thesis by (simp add: parseDevfile.simps)
  next
    case (Inr x0)
    obtain x eo where un: "Unmarshal E (GetDevfileContent (Ctx d)) x0 = (x, eo)"
      by (cases "Unmarshal E (GetDevfileContent (Ctx d)) x0")
    show ?thesis
    proof (cases "eo = None \<and> f")
      case True
      with assms(2) None Inr un obtain rr where
        n: "parseParentAndPlugin E n (d\<lparr>Data := Some x\<rparr>) = Some rr"
        by (auto simp: parseDevfile.simps split: option.splits)
      from parseParentAndPlugin_mono [OF A n] n assms(2) None Inr un True show ?thesis
        by (simp add: parseDevfile.simps)
    next
      case False
      with assms(2) None Inr un show ?thesis
        by (auto simp: parseDevfile.simps split: option.splits)
    qed
  qed
qed

lemma ParseFromURL_mono_Suc:
  "ParseFromURL E n u = Some r \<Longrightarrow> ParseFromURL E (Suc n) u = Some r"
proof (induction n arbitrary: u r)
  case 0
  then show ?case by (simp add: ParseFromURL.simps)
next
  case (Suc n)
  obtain c eo where pop: "PopulateFromURL E (NewURLDevfileCtx u) = (c, eo)"
    by (cases "PopulateFromURL E (NewURLDevfileCtx u)")
  show ?case
  proof (cases eo)
    case None
    with Suc.prems pop obtain rr where
      n: "parseDevfile E n \<lparr>Ctx = c, Data = None\<rparr> True = Some rr"
      by (auto simp: ParseFromURL.simps split: option.splits)
    have "parseDevfile E (Suc n) \<lparr>Ctx = c, Data = None\<rparr> True = Some rr"
      by (rule parseDevfile_mono [OF _ n]) (rule Suc.IH)
    with n Suc.prems pop None show ?thesis
      by (simp add: ParseFromURL.simps)
  next
    case (Some e)
    with Suc.prems pop show ?thesis by (simp add: ParseFromURL.simps)
  qed
qed

lemma ParseFromURL_mono:
  "ParseFromURL E n u = Some r \<Longrightarrow> n \<le> m \<Longrightarrow> ParseFromURL E m u = Some r"
  by (induction m) (auto simp: le_Suc_eq ParseFromURL_mono_Suc)

subsection \<open>Auxiliary facts\<close>

lemma Contains_prefix: "prefix sub s \<Longrightarrow> Contains s sub"
  by (cases s) auto

lemma Contains_append: "Contains (pre @ sub @ post) sub"
  by (induction pre) (auto simp: Contains_prefix)





lemma flattenPlugins_no_plugin:
  "\<forall>c\<in>set cs. Plugin c = None \<Longrightarrow> flattenPlugins E n cs acc = Some (Returns (Inr acc), [])"
  by (induction cs) (auto simp: flattenPlugins.simps)



lemma flattenPlugins_skip:
  "\<forall>c\<in>set before. Plugin c = None \<Longrightarrow>
     flattenPlugins E n (before @ cs) acc = flattenPlugins E n cs acc"
  by (induction before) (auto simp: flattenPlugins.simps)

lemma flattenPlugins_empty_uri:
  "Plugin c = Some p \<Longrightarrow> p \<noteq> PluginComponent_zero \<Longrightarrow> PluginUri p = '''' \<Longrightarrow>
     flattenPlugins E n (c # rest) acc = Some (Panic, [])"
  by (simp add: flattenPlugins.simps DevfileObj_zero_def)

lemma Contains_sublist: "Contains s sub \<longleftrightarrow> sublist sub s"
  by (induction s) (auto simp: sublist_Cons_right)

lemma addSyncFolder_rejects:
  assumes "HasPrefix (ClonePath p) ''/'' \<or> Contains (ClonePath p) ''..''"
  shows "\<exists>e. addSyncFolder c root (p # ps) = (c, Some e) \<and> Contains e (Project_Name p)"
proof -
  have n1: "Contains (relativePathError p) (Project_Name p)"
    unfolding relativePathError_def
    using Contains_append [of "''the clonePath '' @ ClonePath p @ '' in the devfile project ''" "Project_Name p"]
    by (simp del: Contains.simps)
  have n2: "Contains (escapePathError p) (Project_Name p)"
    unfolding escapePathError_def
    using Contains_append [of "''the clonePath '' @ ClonePath p @ '' in the devfile project ''" "Project_Name p"]
    by (simp del: Contains.simps)
  from assms have ne: "ClonePath p \<noteq> ''''"
    by (auto simp: HasPrefix_def)
  show ?thesis
  proof (cases "HasPrefix (ClonePath p) ''/''")
    case True
    with ne n1 show ?thesis by (simp add: addSyncFolder_def Let_def)
  next
    case False
    with assms ne n2 show ?thesis by (simp add: addSyncFolder_def Let_def)
  qed
qed

text \<open>
  A plugin that is referenced by its \<open>id\<close> stops the loop with a panic, after the downloads
  of the plugins before it.
\<close>

lemma flattenPlugins_reference_by_id:
  "flattenPlugins example_env (Suc 0)
     [\<lparr>Component_Name = ''q'', Container = None, Plugin = Some (pluginAt ''Q'')\<rparr>,
      \<lparr>Component_Name = ''j'', Container = None, Plugin = Some (pluginById ''java'')\<rparr>,
      \<lparr>Component_Name = ''p'', Container = None, Plugin = Some (pluginAt ''P'')\<rparr>] [] =
   Some (Panic, [''Q''])"
  by (simp add: parser_simps example_defs Let_def)

subsection \<open>The parser computes the flattened content\<close>









section \<open>The claims\<close>



text \<open>
  Claim C3 is about a Plugin component that is not the zero value and whose \<open>uri\<close> is
  empty: one that names its document by an \<open>id\<close> or a Kubernetes resource, or that has
  only overrides. When the loop reaches such a component (here: no parent to resolve, and
  only components without a plugin before it), it skips the download, leaves \<open>pluginData\<close>
  at its zero value and calls \<open>GetDevfileWorkspace\<close> on its \<open>Data\<close>, a \<open>nil\<close> interface: the
  call panics, for every environment and every bound. The plugin does not contribute an
  empty content, and \<open>parseParentAndPlugin\<close> does not return.
\<close>

theorem empty_plugin_uri_panics:
  assumes "Data d = Some x"
    and "parentReference x = None"
    and "Components (GetDevfileWorkspace x) = before @ c # rest"
    and "list_all (\<lambda>c. Plugin c = None) before"
    and "Plugin c = Some p"
    and "p \<noteq> PluginComponent_zero"
    and "PluginUri p = ''''"
  shows "parseParentAndPlugin E n d = Some (Panic, [])"
proof -
  from assms(2) have par: "flattenParent E n (GetParent x) = Some (Returns (Inr WorkspaceContent_zero), [])"
    by (cases "GetParent x") (auto simp: flattenParent.simps parentReference_def split: if_splits)
  from assms(4) have "flattenPlugins E n (before @ c # rest) [] = flattenPlugins E n (c # rest) []"
    by (intro flattenPlugins_skip) (simp add: list_all_iff)
  with assms(3,5,6,7) have plu: "flattenPlugins E n (Components (GetDevfileWorkspace x)) [] = Some (Panic, [])"
    by (simp add: flattenPlugins_empty_uri)
  from assms(1) par plu show ?thesis
    by (simp add: parseParentAndPlugin.simps GetComponents_def GetDevfileWorkspace_def)
qed

theorem empty_plugin_uri_panics_witness:
  "parentReference (flatDoc [container ''c'',
      \<lparr>Component_Name = ''p'', Container = None,
        Plugin = Some (pluginById ''java'')\<rparr>]) = None \<and>
   list_all (\<lambda>c. Plugin c = None) [container ''c''] \<and>
   (pluginById ''java'') \<noteq> PluginComponent_zero \<and>
   parseParentAndPlugin example_env (Suc 0)
     \<lparr>Ctx = DevfileCtx_zero,
       Data = Some (flatDoc [container ''c'',
                \<lparr>Component_Name = ''p'', Container = None,
                  Plugin = Some (pluginById ''java'')\<rparr>])\<rparr> =
   Some (Panic, [])"
proof -
  let ?p = "(pluginById ''java'')"
  let ?c = "\<lparr>Component_Name = ''p'', Container = None, Plugin = Some ?p\<rparr>"
  let ?x = "flatDoc [container ''c'', ?c]"
  have d: "Data \<lparr>Ctx = DevfileCtx_zero, Data = Some ?x\<rparr> = Some ?x" by simp
  have ref: "parentReference ?x = None"
    by (simp add: parentReference_def example_defs)
  have comps: "Components (GetDevfileWorkspace ?x) = [container ''c''] @ ?c # []"
    by (simp add: example_defs)
  have plain: "list_all (\<lambda>c. Plugin c = None) [container ''c'']"
    by (simp add: container_def)
  have plug: "Plugin ?c = Some ?p" by simp
  have nz: "?p \<noteq> PluginComponent_zero"
    by (simp add: pluginById_def PluginComponent_zero_def)
  have uri: "PluginUri ?p = ''''"
    by (simp add: pluginById_def PluginComponent_zero_def)
  from empty_plugin_uri_panics [OF d ref comps plain plug nz uri, of example_env "Suc 0"] ref plain nz
  show ?thesis by simp
qed

text \<open>
  Claim C4. Let the context of \<open>d\<close> validate and its content decode to \<open>x\<close>. Whenever
  \<open>parseParentAndPlugin\<close> returns an error \<open>e\<close> for the decoded document,
  \<open>parseDevfile\<close> with \<open>flattenedDevfile = true\<close> returns the zero \<open>DevfileObj\<close> and \<open>e\<close>. In
  particular, when \<open>x\<close> has a parent reference whose download fails with \<open>e'\<close>, the result
  is the zero \<open>DevfileObj\<close> and \<open>e'\<close>, after that one download.
\<close>

theorem parseDevfile_discards_on_flatten_error:
  assumes "Validate E (Ctx d) = None"
    and "NewDevfileData E (GetApiVersion (Ctx d)) = Inr x0"
    and "Unmarshal E (GetDevfileContent (Ctx d)) x0 = (x, None)"
  shows "(parseParentAndPlugin E n (d\<lparr>Data := Some x\<rparr>) = Some (Returns (dat, Some e), tr) \<longrightarrow>
            parseDevfile E n d True = Some (Returns (DevfileObj_zero, Some e), tr)) \<and>
         (parentReference x = Some u \<and> PopulateFromURL E (NewURLDevfileCtx u) = (c, Some e') \<longrightarrow>
            parseDevfile E (Suc n) d True = Some (Returns (DevfileObj_zero, Some e'), [u]))"
proof (intro conjI impI)
  assume "parseParentAndPlugin E n (d\<lparr>Data := Some x\<rparr>) = Some (Returns (dat, Some e), tr)"
  with assms show "parseDevfile E n d True = Some (Returns (DevfileObj_zero, Some e), tr)"
    by (simp add: parseDevfile.simps)
next
  assume "parentReference x = Some u \<and> PopulateFromURL E (NewURLDevfileCtx u) = (c, Some e')"
  then obtain p where p: "GetParent x = Some p" "p \<noteq> Parent_zero" "ParentUri p \<noteq> ''''" "ParentUri p = u"
    and pop: "PopulateFromURL E (NewURLDevfileCtx u) = (c, Some e')"
    by (auto simp: parentReference_def split: option.splits if_splits)
  then have "flattenParent E (Suc n) (GetParent x) = Some (Returns (Inl e'), [u])"
    by (simp add: flattenParent.simps ParseFromURL.simps)
  then have "parseParentAndPlugin E (Suc n) (d\<lparr>Data := Some x\<rparr>) = Some (Returns (Some x, Some e'), [u])"
    by (simp add: parseParentAndPlugin.simps)
  with assms show "parseDevfile E (Suc n) d True = Some (Returns (DevfileObj_zero, Some e'), [u])"
    by (simp add: parseDevfile.simps)
qed

theorem parseDevfile_discards_on_flatten_error_witness:
  "Validate example_env (Ctx \<lparr>Ctx = \<lparr>absPath = ''M'', url = '''', apiVersion = ''2.0.0'', rawContent = ''M''\<rparr>, Data = None\<rparr>) = None \<and>
   parseParentAndPlugin example_env (Suc 0)
      \<lparr>Ctx = \<lparr>absPath = ''M'', url = '''', apiVersion = ''2.0.0'', rawContent = ''M''\<rparr>,
        Data = example_doc ''M''\<rparr> =
     Some (Returns (example_doc ''M'', Some ''not found''), [''X'']) \<and>
   PopulateFromURL example_env (NewURLDevfileCtx ''X'') = (NewURLDevfileCtx ''X'', Some ''not found'') \<and>
   parseDevfile example_env (Suc 0)
      \<lparr>Ctx = \<lparr>absPath = ''M'', url = '''', apiVersion = ''2.0.0'', rawContent = ''M''\<rparr>, Data = None\<rparr> True =
     Some (Returns (DevfileObj_zero, Some ''not found''), [''X''])"
proof -
  let ?d = "\<lparr>Ctx = \<lparr>absPath = ''M'', url = '''', apiVersion = ''2.0.0'', rawContent = ''M''\<rparr>, Data = None\<rparr>"
  let ?x = "(flatDoc [container ''c''])\<lparr>Parent := Some (parentAt ''X'')\<rparr>"
  have v: "Validate example_env (Ctx ?d) = None"
    by (simp add: example_defs)
  have nd: "NewDevfileData example_env (GetApiVersion (Ctx ?d)) =
              Inr \<lparr>SchemaVersion = ''2.0.0'', Parent = None, Workspace = WorkspaceContent_zero\<rparr>"
    by (simp add: example_defs)
  have un: "Unmarshal example_env (GetDevfileContent (Ctx ?d))
              \<lparr>SchemaVersion = ''2.0.0'', Parent = None, Workspace = WorkspaceContent_zero\<rparr> = (?x, None)"
    by (simp add: example_defs)
  have run: "parseParentAndPlugin example_env (Suc 0) (?d\<lparr>Data := Some ?x\<rparr>) =
               Some (Returns (Some ?x, Some ''not found''), [''X''])"
    by (simp add: parser_simps example_defs)
  have ref: "parentReference ?x = Some ''X''"
    by (simp add: parentReference_def example_defs)
  have pop: "PopulateFromURL example_env (NewURLDevfileCtx ''X'') = (NewURLDevfileCtx ''X'', Some ''not found'')"
    by (simp add: example_defs)
  from parseDevfile_discards_on_flatten_error [OF v nd un, of "Suc 0" "Some ?x" "''not found''" "[''X'']"
         "''X''" "NewURLDevfileCtx ''X''" "''not found''"] run ref pop v
  show ?thesis by (simp add: example_defs)
qed



text \<open>
  Claim C6. Let a document have no parent reference to resolve and no Plugin component,
  and let the merger return the document's own content when it is given that content, the
  empty parent content and no plugin layer. Then \<open>parseParentAndPlugin\<close> returns without
  error and without a download, for every bound; the workspace content is the one before
  the call, the parent is \<open>nil\<close>, and a document whose parent was \<open>nil\<close> is unchanged.
\<close>

theorem flat_document_unchanged:
  assumes "Data d = Some x"
    and "parentReference x = None"
    and "list_all (\<lambda>c. Plugin c = None) (Components (GetDevfileWorkspace x))"
    and "MergeDevWorkspaceTemplateSpec E (GetDevfileWorkspace x) WorkspaceContent_zero [] =
           Inr (GetDevfileWorkspace x)"
  shows "parseParentAndPlugin E n d = Some (Returns (Some (SetParent None x), None), []) \<and>
         GetDevfileWorkspace (SetParent None x) = GetDevfileWorkspace x \<and>
         (GetParent x = None \<longrightarrow> SetParent None x = x)"
proof -
  from assms(2) have par: "flattenParent E n (GetParent x) = Some (Returns (Inr WorkspaceContent_zero), [])"
    by (cases "GetParent x") (auto simp: flattenParent.simps parentReference_def split: if_splits)
  from assms(3) have plu: "flattenPlugins E n (Components (GetDevfileWorkspace x)) [] = Some (Returns (Inr []), [])"
    by (intro flattenPlugins_no_plugin) (simp add: list_all_iff)
  have same: "SetDevfileWorkspace (GetDevfileWorkspace x) x = x"
    by (simp add: SetDevfileWorkspace_def GetDevfileWorkspace_def)
  from assms(1) par plu assms(4) same
  have "parseParentAndPlugin E n d = Some (Returns (Some (SetParent None x), None), [])"
    by (simp add: parseParentAndPlugin.simps GetComponents_def GetDevfileWorkspace_def)
  moreover have "GetDevfileWorkspace (SetParent None x) = GetDevfileWorkspace x"
    by (simp add: GetDevfileWorkspace_def SetParent_def)
  moreover have "GetParent x = None \<Longrightarrow> SetParent None x = x"
    by (simp add: GetParent_def SetParent_def)
  ultimately show ?thesis by simp
qed

theorem flat_document_unchanged_witness:
  "parentReference (flatDoc [container ''a'']) = None \<and>
   list_all (\<lambda>c. Plugin c = None) (Components (GetDevfileWorkspace (flatDoc [container ''a'']))) \<and>
   MergeDevWorkspaceTemplateSpec example_env (GetDevfileWorkspace (flatDoc [container ''a'']))
     WorkspaceContent_zero [] = Inr (GetDevfileWorkspace (flatDoc [container ''a''])) \<and>
   parseParentAndPlugin example_env 0 \<lparr>Ctx = DevfileCtx_zero, Data = Some (flatDoc [container ''a''])\<rparr> =
     Some (Returns (Some (flatDoc [container ''a'']), None), [])"
proof -
  let ?x = "flatDoc [container ''a'']"
  have d: "Data \<lparr>Ctx = DevfileCtx_zero, Data = Some ?x\<rparr> = Some ?x" by simp
  have ref: "parentReference ?x = None"
    by (simp add: parentReference_def example_defs)
  have plain: "list_all (\<lambda>c. Plugin c = None) (Components (GetDevfileWorkspace ?x))"
    by (simp add: example_defs)
  have mer: "MergeDevWorkspaceTemplateSpec example_env (GetDevfileWorkspace ?x) WorkspaceContent_zero [] =
               Inr (GetDevfileWorkspace ?x)"
    by (simp add: example_defs)
  have same: "SetParent None ?x = ?x"
    by (simp add: example_defs)
  from flat_document_unchanged [OF d ref plain mer, of 0] ref plain mer same show ?thesis
    by simp
qed

text \<open>
  Claim C7. With \<open>flattenedDevfile = false\<close>, \<open>parseDevfile\<close> always returns, with no
  download, and so does \<open>ParseRawDevfile\<close>. The result is the same at bound \<open>0\<close>, where no
  \<open>ParseFromURL\<close> call can return, and with any other download, override and merge
  functions: the resolver is not called. When there is no error, the data of the result
  is the document exactly as \<open>Unmarshal\<close> decoded it, parent and plugin components included.
\<close>

theorem raw_mode_never_fetches:
  "(\<exists>r. parseDevfile E n d False = Some (Returns r, [])) \<and>
   (\<exists>r. ParseRawDevfile E n path = Some (Returns r, [])) \<and>
   parseDevfile E n d False =
     parseDevfile (E\<lparr>PopulateFromURL := f, OverrideDevWorkspaceTemplateSpec := g,
                     MergeDevWorkspaceTemplateSpec := h\<rparr>) 0 d False \<and>
   (parseDevfile E n d False = Some (Returns (d', None), tr) \<longrightarrow>
      (\<exists>x0 x. NewDevfileData E (GetApiVersion (Ctx d)) = Inr x0 \<and>
              Unmarshal E (GetDevfileContent (Ctx d)) x0 = (x, None) \<and>
              d' = d\<lparr>Data := Some x\<rparr>))"
proof -
  have raw: "\<exists>r. parseDevfile E n d0 False = Some (Returns r, [])" for d0
    by (auto simp: parseDevfile.simps split: option.splits prod.splits sum.splits)
  have entry: "\<exists>r. ParseRawDevfile E n path = Some (Returns r, [])"
    using raw by (auto simp: ParseRawDevfile_def split: option.splits prod.splits)
  have indep: "parseDevfile E n d False =
     parseDevfile (E\<lparr>PopulateFromURL := f, OverrideDevWorkspaceTemplateSpec := g,
                     MergeDevWorkspaceTemplateSpec := h\<rparr>) 0 d False"
    by (auto simp: parseDevfile.simps split: option.splits prod.splits sum.splits)
  have intact: "parseDevfile E n d False = Some (Returns (d', None), tr) \<longrightarrow>
      (\<exists>x0 x. NewDevfileData E (GetApiVersion (Ctx d)) = Inr x0 \<and>
              Unmarshal E (GetDevfileContent (Ctx d)) x0 = (x, None) \<and>
              d' = d\<lparr>Data := Some x\<rparr>)"
    by (auto simp: parseDevfile.simps split: option.splits prod.splits sum.splits)
  from raw entry indep intact show ?thesis by blast
qed

theorem raw_mode_never_fetches_witness:
  "ParseRawDevfile example_env 0 ''L'' =
     Some (Returns (\<lparr>Ctx = \<lparr>absPath = ''L'', url = '''', apiVersion = ''2.0.0'', rawContent = ''L''\<rparr>,
                     Data = example_doc ''L''\<rparr>, None), []) \<and>
   (\<exists>x. example_doc ''L'' = Some x \<and> GetParent x = Some (parentAt ''P'') \<and>
        importedPlugins (Components (GetDevfileWorkspace x)) = [pluginAt ''Q''])"
proof -
  let ?c = "\<lparr>absPath = ''L'', url = '''', apiVersion = ''2.0.0'', rawContent = ''L''\<rparr>"
  have run: "parseDevfile example_env 0 \<lparr>Ctx = ?c, Data = None\<rparr> False =
               Some (Returns (\<lparr>Ctx = ?c, Data = example_doc ''L''\<rparr>, None), [])"
    by (simp add: parseDevfile.simps example_defs)
  from raw_mode_never_fetches [where E = example_env and n = 0 and d = "\<lparr>Ctx = ?c, Data = None\<rparr>"
         and path = "''L''" and f = "PopulateFromURL example_env"
         and g = "OverrideDevWorkspaceTemplateSpec example_env"
         and h = "MergeDevWorkspaceTemplateSpec example_env"
         and d' = "\<lparr>Ctx = ?c, Data = example_doc ''L''\<rparr>" and tr = "[]"] run
  have "\<exists>x. \<lparr>Ctx = ?c, Data = example_doc ''L''\<rparr> = \<lparr>Ctx = ?c, Data = None\<rparr>\<lparr>Data := Some x\<rparr>"
    by blast
  then have doc: "\<exists>x. example_doc ''L'' = Some x" by simp
  have entry: "ParseRawDevfile example_env 0 ''L'' = parseDevfile example_env 0 \<lparr>Ctx = ?c, Data = None\<rparr> False"
    by (simp add: ParseRawDevfile_def example_defs)
  from doc entry run show ?thesis
    by (auto simp: example_defs)
qed

text \<open>
  Claim C8. For a non-empty project list, \<open>addSyncFolder\<close> looks at the first project. A
  \<open>clonePath\<close> that starts with a slash is rejected with the message that asks for a
  relative path; one that does not but contains \<open>..\<close> is rejected with the message about
  escaping the projects root. Both messages contain the project's name, so a \<open>clonePath\<close>
  of either kind gives an error that names the project, and the container is left as it
  was. The \<open>clonePath\<close> \<open>src\<close> under the source root \<open>/projects\<close> gives the sync folder
  \<open>/projects/src\<close>, and an empty \<open>clonePath\<close> gives the source root joined with the
  project's name.
\<close>

theorem addSyncFolder_clonePath:
  "(HasPrefix (ClonePath p) ''/'' \<longrightarrow> addSyncFolder c root (p # ps) = (c, Some (relativePathError p))) \<and>
   (\<not> HasPrefix (ClonePath p) ''/'' \<and> Contains (ClonePath p) ''..'' \<longrightarrow>
      addSyncFolder c root (p # ps) = (c, Some (escapePathError p))) \<and>
   (ClonePath p = ''src'' \<longrightarrow>
      addSyncFolder c ''/projects'' (p # ps) =
        (c\<lparr>Env := Env c @ [\<lparr>EnvVar_Name = EnvProjectsSrc, EnvVar_Value = ''/projects/src''\<rparr>]\<rparr>, None)) \<and>
   (ClonePath p = '''' \<longrightarrow>
      addSyncFolder c root (p # ps) =
        (c\<lparr>Env := Env c @ [\<lparr>EnvVar_Name = EnvProjectsSrc,
                             EnvVar_Value = ToSlash (Join [root, Project_Name p])\<rparr>]\<rparr>, None)) \<and>
   Contains (relativePathError p) (Project_Name p) \<and>
   Contains (escapePathError p) (Project_Name p) \<and>
   (HasPrefix (ClonePath p) ''/'' \<or> Contains (ClonePath p) ''..'' \<longrightarrow>
      (\<exists>e. addSyncFolder c root (p # ps) = (c, Some e) \<and> Contains e (Project_Name p)))"
proof -
  have abs: "HasPrefix (ClonePath p) ''/'' \<longrightarrow> addSyncFolder c root (p # ps) = (c, Some (relativePathError p))"
    by (auto simp: addSyncFolder_def HasPrefix_def Let_def)
  have esc: "\<not> HasPrefix (ClonePath p) ''/'' \<and> Contains (ClonePath p) ''..'' \<longrightarrow>
      addSyncFolder c root (p # ps) = (c, Some (escapePathError p))"
    by (auto simp: addSyncFolder_def Let_def)
  have join: "Join [''/projects'', ''src''] = ''/projects/src''"
    by (simp add: Join_def Clean_def HasPrefix_def cleanStep_def)
  have src: "ClonePath p = ''src'' \<longrightarrow>
      addSyncFolder c ''/projects'' (p # ps) =
        (c\<lparr>Env := Env c @ [\<lparr>EnvVar_Name = EnvProjectsSrc, EnvVar_Value = ''/projects/src''\<rparr>]\<rparr>, None)"
    by (simp add: addSyncFolder_def Let_def HasPrefix_def join ToSlash_def)
  have none: "ClonePath p = '''' \<longrightarrow>
      addSyncFolder c root (p # ps) =
        (c\<lparr>Env := Env c @ [\<lparr>EnvVar_Name = EnvProjectsSrc,
                             EnvVar_Value = ToSlash (Join [root, Project_Name p])\<rparr>]\<rparr>, None)"
    by (simp add: addSyncFolder_def Let_def)
  have n1: "Contains (relativePathError p) (Project_Name p)"
    unfolding relativePathError_def
    using Contains_append [of "''the clonePath '' @ ClonePath p @ '' in the devfile project ''" "Project_Name p"]
    by (simp del: Contains.simps)
  have n2: "Contains (escapePathError p) (Project_Name p)"
    unfolding escapePathError_def
    using Contains_append [of "''the clonePath '' @ ClonePath p @ '' in the devfile project ''" "Project_Name p"]
    by (simp del: Contains.simps)
  note rej = addSyncFolder_rejects [of p c root ps]
  from abs esc src none n1 n2 rej show ?thesis by blast
qed

theorem addSyncFolder_clonePath_witness:
  "HasPrefix ''/abs/path'' ''/'' \<and>
   addSyncFolder \<lparr>Container_Name = ''c'', Container_Image = ''i'', Env = []\<rparr> ''/projects''
     [\<lparr>Project_Name = ''myproj'', ClonePath = ''/abs/path''\<rparr>] =
     (\<lparr>Container_Name = ''c'', Container_Image = ''i'', Env = []\<rparr>,
      Some ''the clonePath /abs/path in the devfile project myproj must be a relative path'') \<and>
   Contains ''a/../b'' ''..'' \<and>
   fst (addSyncFolder \<lparr>Container_Name = ''c'', Container_Image = ''i'', Env = []\<rparr> ''/projects''
     [\<lparr>Project_Name = ''myproj'', ClonePath = ''a/../b''\<rparr>]) =
     \<lparr>Container_Name = ''c'', Container_Image = ''i'', Env = []\<rparr> \<and>
   snd (addSyncFolder \<lparr>Container_Name = ''c'', Container_Image = ''i'', Env = []\<rparr> ''/projects''
     [\<lparr>Project_Name = ''myproj'', ClonePath = ''a/../b''\<rparr>]) =
     Some (escapePathError \<lparr>Project_Name = ''myproj'', ClonePath = ''a/../b''\<rparr>) \<and>
   addSyncFolder \<lparr>Container_Name = ''c'', Container_Image = ''i'', Env = []\<rparr> ''/projects''
     [\<lparr>Project_Name = ''myproj'', ClonePath = ''src''\<rparr>] =
     (\<lparr>Container_Name = ''c'', Container_Image = ''i'',
        Env = [\<lparr>EnvVar_Name = ''PROJECT_SOURCE'', EnvVar_Value = ''/projects/src''\<rparr>]\<rparr>, None) \<and>
   addSyncFolder \<lparr>Container_Name = ''c'', Container_Image = ''i'', Env = []\<rparr> ''/projects''
     [\<lparr>Project_Name = ''myproj'', ClonePath = ''''\<rparr>] =
     (\<lparr>Container_Name = ''c'', Container_Image = ''i'',
        Env = [\<lparr>EnvVar_Name = ''PROJECT_SOURCE'', EnvVar_Value = ''/projects/myproj''\<rparr>]\<rparr>, None)"
proof -
  let ?c = "\<lparr>Container_Name = ''c'', Container_Image = ''i'', Env = []\<rparr>"
  have abs: "HasPrefix ''/abs/path'' ''/''"
    by (simp add: HasPrefix_def)
  have rel: "\<not> HasPrefix ''a/../b'' ''/''"
    by (simp add: HasPrefix_def)
  have dots: "Contains ''a/../b'' ''..''"
    by simp
  have join: "Join [''/projects'', ''myproj''] = ''/projects/myproj''"
    by (simp add: Join_def Clean_def HasPrefix_def cleanStep_def)
  note a = addSyncFolder_clonePath
             [where p = "\<lparr>Project_Name = ''myproj'', ClonePath = ''/abs/path''\<rparr>" and c = ?c
                and root = "''/projects''" and ps = "[]"]
  note b = addSyncFolder_clonePath
             [where p = "\<lparr>Project_Name = ''myproj'', ClonePath = ''a/../b''\<rparr>" and c = ?c
                and root = "''/projects''" and ps = "[]"]
  note s = addSyncFolder_clonePath
             [where p = "\<lparr>Project_Name = ''myproj'', ClonePath = ''src''\<rparr>" and c = ?c
                and root = "''/projects''" and ps = "[]"]
  note e = addSyncFolder_clonePath
             [where p = "\<lparr>Project_Name = ''myproj'', ClonePath = ''''\<rparr>" and c = ?c
                and root = "''/projects''" and ps = "[]"]
  from a abs have 1: "addSyncFolder ?c ''/projects'' [\<lparr>Project_Name = ''myproj'', ClonePath = ''/abs/path''\<rparr>] =
      (?c, Some ''the clonePath /abs/path in the devfile project myproj must be a relative path'')"
    by (simp add: relativePathError_def)
  from b rel dots have 2: "addSyncFolder ?c ''/projects'' [\<lparr>Project_Name = ''myproj'', ClonePath = ''a/../b''\<rparr>] =
      (?c, Some (escapePathError \<lparr>Project_Name = ''myproj'', ClonePath = ''a/../b''\<rparr>))"
    by simp
  from s have 3: "addSyncFolder ?c ''/projects'' [\<lparr>Project_Name = ''myproj'', ClonePath = ''src''\<rparr>] =
      (?c\<lparr>Env := [\<lparr>EnvVar_Name = ''PROJECT_SOURCE'', EnvVar_Value = ''/projects/src''\<rparr>]\<rparr>, None)"
    by (simp add: EnvProjectsSrc_def)
  from e join have 4: "addSyncFolder ?c ''/projects'' [\<lparr>Project_Name = ''myproj'', ClonePath = ''''\<rparr>] =
      (?c\<lparr>Env := [\<lparr>EnvVar_Name = ''PROJECT_SOURCE'', EnvVar_Value = ''/projects/myproj''\<rparr>]\<rparr>, None)"
    by (simp add: EnvProjectsSrc_def ToSlash_def)
  from abs dots 1 2 3 4 show ?thesis by simp
qed

text \<open>
  Claim C9. When every chain of references from \<open>u\<close> ends in fewer than \<open>k\<close> steps,
  \<open>ParseFromURL\<close> returns at bound \<open>k\<close>, and it returns the same at every larger bound;
  likewise \<open>parseParentAndPlugin\<close> returns for a document whose references all resolve
  within \<open>k\<close>. Nothing else bounds the recursion: on a cycle of parent references
  \<open>ParseFromURL\<close> returns at no bound at all, whatever the bound is.
\<close>

theorem resolution_bounded_by_references:
  "(resolves_within E k u \<longrightarrow> (\<exists>r. \<forall>m\<ge>k. ParseFromURL E m u = Some r)) \<and>
   (Data d = Some x \<and> list_all (resolves_within E k) (references x) \<longrightarrow>
      (\<exists>r. \<forall>m\<ge>k. parseParentAndPlugin E m d = Some r)) \<and>
   (parent_cycle E us \<longrightarrow> (\<forall>u\<in>set us. \<forall>n. ParseFromURL E n u = None))"
proof (intro conjI impI)
  assume "resolves_within E k u"
  then obtain r where "ParseFromURL E k u = Some r"
    using ParseFromURL_returns by blast
  then have "\<forall>m\<ge>k. ParseFromURL E m u = Some r"
    by (blast intro: ParseFromURL_mono)
  then show "\<exists>r. \<forall>m\<ge>k. ParseFromURL E m u = Some r" ..
next
  assume a: "Data d = Some x \<and> list_all (resolves_within E k) (references x)"
  have "ParseFromURL E k v \<noteq> None" if "v \<in> set (references x)" for v
    using a that by (intro ParseFromURL_returns) (simp add: list_all_iff)
  with a obtain r where r: "parseParentAndPlugin E k d = Some r"
    using parseParentAndPlugin_returns [of d x E k] by auto
  have "parseParentAndPlugin E m d = Some r" if "k \<le> m" for m
    by (rule parseParentAndPlugin_mono [OF _ r]) (rule ParseFromURL_mono [OF _ that])
  then show "\<exists>r. \<forall>m\<ge>k. parseParentAndPlugin E m d = Some r" by blast
next
  assume "parent_cycle E us"
  then show "\<forall>u\<in>set us. \<forall>n. ParseFromURL E n u = None"
    using parent_cycle_diverges by blast
qed

theorem resolution_bounded_by_references_witness:
  "resolves_within example_env (Suc (Suc 0)) ''L'' \<and>
   (\<exists>r. \<forall>m\<ge>Suc (Suc 0). ParseFromURL example_env m ''L'' = Some r) \<and>
   example_doc ''L'' \<noteq> None \<and>
   list_all (resolves_within example_env (Suc 0)) (references (the (example_doc ''L''))) \<and>
   (\<exists>r. \<forall>m\<ge>Suc 0. parseParentAndPlugin example_env m \<lparr>Ctx = DevfileCtx_zero, Data = example_doc ''L''\<rparr> = Some r) \<and>
   parent_cycle example_env [''S''] \<and>
   (\<forall>n. ParseFromURL example_env n ''S'' = None)"
proof -
  have dP: "decodeAt example_env ''P'' = Some (flatDoc [container ''a''])"
    by (simp add: decodeAt_def example_defs)
  have dQ: "decodeAt example_env ''Q'' = Some (flatDoc [container ''b''])"
    by (simp add: decodeAt_def example_defs)
  have dL: "decodeAt example_env ''L'' = example_doc ''L''"
    by (simp add: decodeAt_def example_defs)
  have L: "example_doc ''L'' =
      Some ((flatDoc [\<lparr>Component_Name = ''q'', Container = None,
                         Plugin = Some (pluginAt ''Q'')\<rparr>,
                       container ''c''])
             \<lparr>Parent := Some (parentAt ''P'')\<rparr>)"
    by (simp add: example_doc_def)
  have refsL: "references (the (example_doc ''L'')) = [''P'', ''Q'']"
    by (simp add: L references_def parentReference_def example_defs)
  have leaf: "references (flatDoc [container n]) = []" for n
    by (simp add: references_def parentReference_def example_defs)
  have rP: "resolves_within example_env (Suc 0) ''P''"
    by (simp add: dP leaf)
  have rQ: "resolves_within example_env (Suc 0) ''Q''"
    by (simp add: dQ leaf)
  have inner: "list_all (resolves_within example_env (Suc 0)) (references (the (example_doc ''L'')))"
    using rP rQ by (simp add: refsL del: resolves_within.simps)
  have rL: "resolves_within example_env (Suc (Suc 0)) ''L''"
    using inner by (simp add: dL L del: resolves_within.simps(2)) (simp add: dL L)
  have dS: "decodeAt example_env ''S'' =
      Some ((flatDoc [container ''c''])\<lparr>Parent := Some (parentAt ''S'')\<rparr>)"
    by (simp add: decodeAt_def example_defs)
  have pS: "parentOf example_env ''S'' = Some ''S''"
    by (simp add: parentOf_def dS) (simp add: parentReference_def example_defs)
  have cyc: "parent_cycle example_env [''S'']"
    by (simp add: parent_cycle_def pS)
  have doc: "Data \<lparr>Ctx = DevfileCtx_zero, Data = example_doc ''L''\<rparr> = Some (the (example_doc ''L''))"
    by (simp add: L)
  from resolution_bounded_by_references
         [where E = example_env and k = "Suc (Suc 0)" and u = "''L''" and us = "[''S'']"] rL cyc
  have one: "(\<exists>r. \<forall>m\<ge>Suc (Suc 0). ParseFromURL example_env m ''L'' = Some r) \<and>
             (\<forall>n. ParseFromURL example_env n ''S'' = None)"
    by simp
  from resolution_bounded_by_references
         [where E = example_env and k = "Suc 0"
            and d = "\<lparr>Ctx = DevfileCtx_zero, Data = example_doc ''L''\<rparr>"
            and x = "the (example_doc ''L'')"] doc inner
  have two: "\<exists>r. \<forall>m\<ge>Suc 0. parseParentAndPlugin example_env m
                 \<lparr>Ctx = DevfileCtx_zero, Data = example_doc ''L''\<rparr> = Some r"
    by blast
  from rL inner cyc one two L show ?thesis by simp
qed

text \<open>
  Claim C10. Whenever \<open>parseParentAndPlugin\<close> returns an error, the data object behind
  \<open>d.Data\<close> is the one it was on entry: the two writes, of the merged content and of the
  \<open>nil\<close> parent, come after the last place that can return an error.
\<close>

theorem flatten_error_leaves_document:
  "parseParentAndPlugin E n d = Some (Returns (dat, Some e), tr) \<Longrightarrow> dat = Data d"
  by (auto simp: parseParentAndPlugin.simps split: option.splits prod.splits outcome.splits sum.splits)

theorem flatten_error_leaves_document_witness:
  "parseParentAndPlugin example_env (Suc 0) \<lparr>Ctx = DevfileCtx_zero, Data = example_doc ''M''\<rparr> =
     Some (Returns (example_doc ''M'', Some ''not found''), [''X'']) \<and>
   example_doc ''M'' = Data \<lparr>Ctx = DevfileCtx_zero, Data = example_doc ''M''\<rparr>"
proof -
  have run: "parseParentAndPlugin example_env (Suc 0) \<lparr>Ctx = DevfileCtx_zero, Data = example_doc ''M''\<rparr> =
     Some (Returns (example_doc ''M'', Some ''not found''), [''X''])"
    by (simp add: parser_simps example_defs)
  from flatten_error_leaves_document [OF run] run show ?thesis by simp
qed

end
